theory Spec2Isabelle
  imports Complex_Main
begin

section \<open>Python values\<close>

text \<open>
  The exceptions the pipeline of \<^verbatim>\<open>heatmap.py\<close> can raise. The module defines no
  exception class of its own; every failure is raised by Python or by Pillow:
  \<^item> \<open>OSError\<close>: \<^verbatim>\<open>Image.open\<close> on a missing or unreadable file (FileNotFoundError,
    PermissionError and UnidentifiedImageError are all subclasses of OSError);
  \<^item> \<open>IndexError\<close>: \<^verbatim>\<open>getpixel\<close> outside the image, \<^verbatim>\<open>split()[3]\<close> on fewer bands;
  \<^item> \<open>TypeError\<close>: unpacking a pixel that is a single number, a colour array of the
    wrong shape;
  \<^item> \<open>AttributeError\<close>: a method called on \<^verbatim>\<open>None\<close>;
  \<^item> \<open>ValueError\<close> with Pillow's or Python's message.
\<close>

datatype error = OSError | IndexError | TypeError | AttributeError | ValueError string

text \<open>
  Python floats are modelled as rationals: products are exact, the rounding of IEEE
  arithmetic is not modelled. \<^verbatim>\<open>int(q)\<close> truncates towards zero.
\<close>

definition py_int :: "rat \<Rightarrow> int" where
  "py_int q = (if 0 \<le> q then \<lfloor>q\<rfloor> else \<lceil>q\<rceil>)"

text \<open>Truth value of an optional string argument: \<^verbatim>\<open>None\<close> and \<^verbatim>\<open>''\<close> are false.\<close>

definition truthy :: "string option \<Rightarrow> bool" where
  "truthy p = (case p of None \<Rightarrow> False | Some s \<Rightarrow> s \<noteq> [])"

section \<open>Pillow images\<close>

type_synonym rgb = "nat \<times> nat \<times> nat"
type_synonym rgba = "nat \<times> nat \<times> nat \<times> nat"

record 'p img =
  width :: nat
  height :: nat
  pix :: "nat \<Rightarrow> nat \<Rightarrow> 'p"

text \<open>An image with its mode: \<^verbatim>\<open>'L'\<close> (one byte per pixel), \<^verbatim>\<open>'RGB'\<close> or \<^verbatim>\<open>'RGBA'\<close>.\<close>

datatype pil_image = ImageL "nat img" | ImageRGB "rgb img" | ImageRGBA "rgba img"

fun img_size :: "pil_image \<Rightarrow> nat \<times> nat" where
  "img_size (ImageL im) = (width im, height im)"
| "img_size (ImageRGB im) = (width im, height im)"
| "img_size (ImageRGBA im) = (width im, height im)"

fun with_size :: "pil_image \<Rightarrow> nat \<Rightarrow> nat \<Rightarrow> pil_image" where
  "with_size (ImageL im) w h = ImageL (im\<lparr>width := w, height := h\<rparr>)"
| "with_size (ImageRGB im) w h = ImageRGB (im\<lparr>width := w, height := h\<rparr>)"
| "with_size (ImageRGBA im) w h = ImageRGBA (im\<lparr>width := w, height := h\<rparr>)"

text \<open>What \<^verbatim>\<open>getpixel\<close> returns: a number for mode L, a tuple otherwise.\<close>

datatype pixel = PInt nat | PTuple3 nat nat nat | PTuple4 nat nat nat nat

fun pixel_at :: "pil_image \<Rightarrow> nat \<Rightarrow> nat \<Rightarrow> pixel" where
  "pixel_at (ImageL im) x y = PInt (pix im x y)"
| "pixel_at (ImageRGB im) x y = (case pix im x y of (r, g, b) \<Rightarrow> PTuple3 r g b)"
| "pixel_at (ImageRGBA im) x y = (case pix im x y of (r, g, b, a) \<Rightarrow> PTuple4 r g b a)"

definition getpixel :: "pil_image \<Rightarrow> nat \<times> nat \<Rightarrow> error + pixel" where
  "getpixel im xy =
     (case xy of (x, y) \<Rightarrow>
        if x < fst (img_size im) \<and> y < snd (img_size im) then Inr (pixel_at im x y)
        else Inl IndexError)"

text \<open>
  The world outside the module, taken as a parameter:
  \<^item> \<open>fs\<close>: the image files that \<^verbatim>\<open>Image.open\<close> can read, by path;
  \<^item> \<open>module_dir\<close>: \<^verbatim>\<open>os.path.dirname(__file__)\<close>;
  \<^item> \<open>resample\<close>: the pixels Pillow's resampling filter computes when \<^verbatim>\<open>resize\<close>
    changes the size (the default filter differs between Pillow versions);
  \<^item> \<open>over_px\<close>: the pixel that Pillow's \<^verbatim>\<open>alpha_composite\<close> computes from a
    background and an overlay pixel;
  \<^item> \<open>brush_alpha\<close>: the alpha (0..255) with which Qt's antialiased rasteriser covers
    pixel \<open>(x, y)\<close> when it draws the ellipse of diameter \<open>dm\<close> around a point with a
    radial gradient from black of alpha \<open>a\<close> at the centre to transparent at the rim.
\<close>

record env =
  fs :: "string \<Rightarrow> pil_image option"
  module_dir :: string
  resample :: "pil_image \<Rightarrow> nat \<Rightarrow> nat \<Rightarrow> pil_image"
  over_px :: "rgba \<Rightarrow> rgba \<Rightarrow> rgba"
  brush_alpha :: "rat \<Rightarrow> int \<Rightarrow> rat \<times> rat \<Rightarrow> nat \<Rightarrow> nat \<Rightarrow> nat"

definition Image_open :: "env \<Rightarrow> string \<Rightarrow> error + pil_image" where
  "Image_open e path = (case fs e path of None \<Rightarrow> Inl OSError | Some im \<Rightarrow> Inr im)"

text \<open>
  \<^verbatim>\<open>Image.resize(size)\<close> returns a copy when the size is already the requested one, and
  otherwise an image of the requested size filled by the resampling filter.
\<close>

definition resize :: "env \<Rightarrow> pil_image \<Rightarrow> nat \<times> nat \<Rightarrow> pil_image" where
  "resize e im sz =
     (if img_size im = sz then im else with_size (resample e im (fst sz) (snd sz)) (fst sz) (snd sz))"

text \<open>\<^verbatim>\<open>convert('RGBA')\<close>: grey becomes three equal channels, a missing alpha is opaque.\<close>

fun convert_RGBA :: "pil_image \<Rightarrow> rgba img" where
  "convert_RGBA (ImageL im) =
     \<lparr>width = width im, height = height im, pix = (\<lambda>x y. (pix im x y, pix im x y, pix im x y, 255))\<rparr>"
| "convert_RGBA (ImageRGB im) =
     \<lparr>width = width im, height = height im,
      pix = (\<lambda>x y. case pix im x y of (r, g, b) \<Rightarrow> (r, g, b, 255))\<rparr>"
| "convert_RGBA (ImageRGBA im) = im"

text \<open>
  \<^verbatim>\<open>convert('L')\<close>: Pillow's luma transform
  \<^verbatim>\<open>(19595*R + 38470*G + 7471*B + 0x8000) >> 16\<close>; alpha is dropped.
\<close>

definition luma :: "nat \<Rightarrow> nat \<Rightarrow> nat \<Rightarrow> nat" where
  "luma r g b = (19595 * r + 38470 * g + 7471 * b + 32768) div 65536"

fun convert_L :: "pil_image \<Rightarrow> nat img" where
  "convert_L (ImageL im) = im"
| "convert_L (ImageRGB im) =
     \<lparr>width = width im, height = height im,
      pix = (\<lambda>x y. case pix im x y of (r, g, b) \<Rightarrow> luma r g b)\<rparr>"
| "convert_L (ImageRGBA im) =
     \<lparr>width = width im, height = height im,
      pix = (\<lambda>x y. case pix im x y of (r, g, b, a) \<Rightarrow> luma r g b)\<rparr>"

text \<open>
  \<^verbatim>\<open>Image.alpha_composite(im1, im2)\<close> raises \<^verbatim>\<open>ValueError: images do not match\<close> when
  the sizes differ; it never resizes.
\<close>

definition alpha_composite :: "env \<Rightarrow> rgba img \<Rightarrow> rgba img \<Rightarrow> error + rgba img" where
  "alpha_composite e im1 im2 =
     (if width im1 = width im2 \<and> height im1 = height im2
      then Inr \<lparr>width = width im1, height = height im1,
                pix = (\<lambda>x y. over_px e (pix im1 x y) (pix im2 x y))\<rparr>
      else Inl (ValueError ''images do not match''))"

text \<open>
  \<^verbatim>\<open>Image.point(f)\<close> on an 8-bit band tabulates \<open>f\<close> on 0..255 and stores each entry
  clipped to a byte (\<^verbatim>\<open>CLIP8\<close>); a pixel of value \<open>v\<close> becomes entry \<open>v\<close> of the table.
\<close>

definition CLIP8 :: "int \<Rightarrow> nat" where
  "CLIP8 i = (if i < 0 then 0 else if 255 < i then 255 else nat i)"

definition point_L :: "nat img \<Rightarrow> (nat \<Rightarrow> int) \<Rightarrow> nat img" where
  "point_L im f = im\<lparr>pix := (\<lambda>x y. CLIP8 (f (pix im x y)))\<rparr>"

definition alpha_band :: "rgba img \<Rightarrow> nat img" where
  "alpha_band im =
     \<lparr>width = width im, height = height im, pix = (\<lambda>x y. case pix im x y of (r, g, b, a) \<Rightarrow> a)\<rparr>"

definition set_alpha :: "rgba img \<Rightarrow> nat img \<Rightarrow> rgba img" where
  "set_alpha im al = im\<lparr>pix := (\<lambda>x y. case pix im x y of (r, g, b, a) \<Rightarrow> (r, g, b, pix al x y))\<rparr>"

section \<open>Image objects on a heap\<close>







text \<open>The image that \<open>to_opacity\<close> returns, as a value (see \<open>to_opacity_heap\<close> below).\<close>

definition to_opacity_img :: "rgba img \<Rightarrow> rat \<Rightarrow> rgba img" where
  "to_opacity_img im opacity =
     set_alpha im (point_L (alpha_band im) (\<lambda>p. py_int (rat_of_nat p * opacity)))"

section \<open>Colour maps\<close>

text \<open>
  A matplotlib colour map after initialisation: a table of \<open>cm_N\<close> colours with
  channels in [0,1], and the colours used below and above the table.
\<close>

type_synonym colour = "rat \<times> rat \<times> rat \<times> rat"

record colormap =
  cm_N :: nat
  cm_lut :: "nat \<Rightarrow> colour"
  cm_under :: colour
  cm_over :: colour

text \<open>
  \<^verbatim>\<open>LinearSegmentedColormap.from_list(name, colours)\<close>: the colours are anchors at
  evenly spaced positions of [0,1], joined by straight lines; the table has 256
  entries, entry \<open>i\<close> being the gradient at \<open>i/255\<close>. Below and above the table the
  first and the last entry are used.
\<close>

definition lerp :: "rat \<Rightarrow> colour \<Rightarrow> colour \<Rightarrow> colour" where
  "lerp t c d =
     (case c of (r0, g0, b0, a0) \<Rightarrow> case d of (r1, g1, b1, a1) \<Rightarrow>
        (r0 + t * (r1 - r0), g0 + t * (g1 - g0), b0 + t * (b1 - b0), a0 + t * (a1 - a0)))"

definition gradient :: "colour list \<Rightarrow> rat \<Rightarrow> colour" where
  "gradient cs t =
     (let x = t * rat_of_nat (length cs - 1); k = nat \<lfloor>x\<rfloor>
      in if k + 1 < length cs then lerp (x - rat_of_nat k) (cs ! k) (cs ! (k + 1))
         else cs ! (length cs - 1))"

definition from_list :: "colour list \<Rightarrow> colormap" where
  "from_list cs =
     \<lparr>cm_N = 256, cm_lut = (\<lambda>i. gradient cs (rat_of_nat i / 255)),
      cm_under = gradient cs 0, cm_over = gradient cs 1\<rparr>"

text \<open>
  Calling the colour map with \<^verbatim>\<open>bytes=True\<close>: the table entry, each channel clipped to
  [0,1], times 255, truncated to a byte.
\<close>

definition to_byte :: "rat \<Rightarrow> nat" where
  "to_byte v = nat \<lfloor>max 0 (min 1 v) * 255\<rfloor>"

definition colour_bytes :: "colour \<Rightarrow> rgba" where
  "colour_bytes c = (case c of (r, g, b, a) \<Rightarrow> (to_byte r, to_byte g, to_byte b, to_byte a))"

text \<open>On an integer array the values index the table directly.\<close>

definition cmap_colour :: "colormap \<Rightarrow> nat \<Rightarrow> colour" where
  "cmap_colour cm i = (if i < cm_N cm then cm_lut cm i else cm_over cm)"

definition cmap_index :: "colormap \<Rightarrow> nat \<Rightarrow> rgba" where
  "cmap_index cm i = colour_bytes (cmap_colour cm i)"

definition colour_alpha :: "colour \<Rightarrow> rat" where
  "colour_alpha c = (case c of (r, g, b, a) \<Rightarrow> a)"


text \<open>
  \<^verbatim>\<open>Heatmapper._cmap_from_image_path\<close>:
  \<^verbatim>\<open>
    img = Image.open(img_path)
    img = img.resize((256, img.height))
    colours = (img.getpixel((x, 0)) for x in range(256))
    colours = [(r/255, g/255, b/255, a/255) for (r, g, b, a) in colours]
    return LinearSegmentedColormap.from_list('from_image', colours)
  \<close>
  The generator is consumed by the list comprehension: pixel \<open>x\<close> is read and unpacked
  before pixel \<open>x + 1\<close> is read, and the first failure ends the loop.
\<close>

definition unpack4 :: "pixel \<Rightarrow> error + colour" where
  "unpack4 p =
     (case p of
        PTuple4 r g b a \<Rightarrow>
          Inr (rat_of_nat r / 255, rat_of_nat g / 255, rat_of_nat b / 255, rat_of_nat a / 255)
      | PTuple3 r g b \<Rightarrow> Inl (ValueError ''not enough values to unpack (expected 4, got 3)'')
      | PInt v \<Rightarrow> Inl TypeError)"

fun sample_colours :: "pil_image \<Rightarrow> nat list \<Rightarrow> error + colour list" where
  "sample_colours im [] = Inr []"
| "sample_colours im (x # xs) =
     (case getpixel im (x, 0) of Inl e \<Rightarrow> Inl e
      | Inr p \<Rightarrow>
         (case unpack4 p of Inl e \<Rightarrow> Inl e
          | Inr c \<Rightarrow>
             (case sample_colours im xs of Inl e \<Rightarrow> Inl e | Inr cs \<Rightarrow> Inr (c # cs))))"

definition cmap_from_image :: "env \<Rightarrow> pil_image \<Rightarrow> error + colormap" where
  "cmap_from_image e img =
     (let img1 = resize e img (256, snd (img_size img))
      in case sample_colours img1 [0..<256] of Inl err \<Rightarrow> Inl err
         | Inr colours \<Rightarrow> Inr (from_list colours))"

definition cmap_from_image_path :: "env \<Rightarrow> string \<Rightarrow> error + colormap" where
  "cmap_from_image_path e img_path =
     (case Image_open e img_path of Inl err \<Rightarrow> Inl err | Inr img \<Rightarrow> cmap_from_image e img)"

section \<open>The Qt canvas\<close>

text \<open>
  \<^verbatim>\<open>QImage(width, height, Format_ARGB32)\<close> is the null image when a side is not
  positive; \<^verbatim>\<open>fill\<close> sets every pixel. Pixels are written (r, g, b, a).
\<close>

definition QImage_new :: "int \<Rightarrow> int \<Rightarrow> rgba img" where
  "QImage_new w h =
     (if 0 < w \<and> 0 < h then \<lparr>width = nat w, height = nat h, pix = (\<lambda>x y. (0, 0, 0, 0))\<rparr>
      else \<lparr>width = 0, height = 0, pix = (\<lambda>x y. (0, 0, 0, 0))\<rparr>)"

definition QImage_fill :: "rgba img \<Rightarrow> rgba \<Rightarrow> rgba img" where
  "QImage_fill q c = q\<lparr>pix := (\<lambda>x y. c)\<rparr>"

text \<open>
  Qt's rounding division by 255 of a product of two bytes
  (\<^verbatim>\<open>t = x*a + 0x80; (t + (t >> 8)) >> 8\<close>).
\<close>

definition byte_mul :: "nat \<Rightarrow> nat \<Rightarrow> nat" where
  "byte_mul x a = (let t = x * a + 128 in (t + t div 256) div 256)"

text \<open>
  The painter's default composition mode, SourceOver, for a black source of alpha \<open>sa\<close>:
  the source adds nothing to the colour channels and \<open>sa\<close> to alpha, the destination is
  scaled by \<open>255 - sa\<close>. (The canvas is opaque from \<open>fill\<close> on, see \<open>paint_points_opaque\<close>,
  so that its channels and its alpha-premultiplied channels are the same numbers.)
\<close>

definition source_over :: "nat \<Rightarrow> rgba \<Rightarrow> rgba" where
  "source_over sa d =
     (case d of (r, g, b, a) \<Rightarrow>
        (byte_mul r (255 - sa), byte_mul g (255 - sa), byte_mul b (255 - sa),
         sa + byte_mul a (255 - sa)))"

section \<open>The grey heat mapper\<close>

text \<open>
  \<^verbatim>\<open>PySideGreyHeatmapper.__init__\<close>: the base class stores the diameter and the strength,
  the subclass then replaces the strength by \<^verbatim>\<open>int(point_strength * 255)\<close>.
\<close>

record PySideGreyHeatmapper =
  dm :: rat
  point_strength :: int

definition PySideGreyHeatmapper_init :: "rat \<Rightarrow> rat \<Rightarrow> PySideGreyHeatmapper" where
  "PySideGreyHeatmapper_init point_diameter strength =
     \<lparr>dm = point_diameter, point_strength = py_int (strength * 255)\<rparr>"

text \<open>
  The methods take the object and return it with their result, so that an assignment
  to an attribute would show. \<^verbatim>\<open>_paint_point\<close> draws one ellipse with a radial gradient
  whose centre colour is \<^verbatim>\<open>QColor(0, 0, 0, max(self.point_strength, 0))\<close>.
\<close>

definition paint_point ::
  "env \<Rightarrow> PySideGreyHeatmapper \<Rightarrow> rat \<times> rat \<Rightarrow> rgba img \<Rightarrow> PySideGreyHeatmapper \<times> rgba img" where
  "paint_point e self point painter =
     (let centre_alpha = max (point_strength self) 0;
          sa = (\<lambda>x y. min 255 (brush_alpha e (dm self) centre_alpha point x y))
      in (self, painter\<lparr>pix := (\<lambda>x y. source_over (sa x y) (pix painter x y))\<rparr>))"

fun paint_points ::
  "env \<Rightarrow> PySideGreyHeatmapper \<Rightarrow> rgba img \<Rightarrow> (rat \<times> rat) list \<Rightarrow> PySideGreyHeatmapper \<times> rgba img" where
  "paint_points e self img [] = (self, img)"
| "paint_points e self img (point # points) =
     (case paint_point e self point img of (self1, img1) \<Rightarrow> paint_points e self1 img1 points)"

text \<open>
  \<^verbatim>\<open>_qimage_to_pil_image\<close> saves the canvas as PNG into a buffer and opens the buffer
  with Pillow. Saving the null image writes nothing, and Pillow cannot identify an
  empty buffer.
\<close>

definition qimage_to_pil_image :: "rgba img \<Rightarrow> error + pil_image" where
  "qimage_to_pil_image qimg =
     (if width qimg = 0 \<or> height qimg = 0 then Inl OSError else Inr (ImageRGBA qimg))"

definition PySide_heatmap ::
  "env \<Rightarrow> PySideGreyHeatmapper \<Rightarrow> int \<Rightarrow> int \<Rightarrow> (rat \<times> rat) list
     \<Rightarrow> PySideGreyHeatmapper \<times> (error + pil_image)" where
  "PySide_heatmap e self w h points =
     (let base_image = QImage_fill (QImage_new w h) (255, 255, 255, 255)
      in case paint_points e self base_image points of (self1, painted) \<Rightarrow>
           (self1, case qimage_to_pil_image painted of Inl err \<Rightarrow> Inl err
                   | Inr im \<Rightarrow> Inr (ImageL (convert_L im))))"

text \<open>
  The rasteriser of a \<open>Heatmapper\<close>: the default one, or an object of the caller's with
  a \<open>heatmap(width, height, points)\<close> method, which is outside the module and taken as
  a function of its arguments.
\<close>

datatype GreyHeatMapper =
    PySide PySideGreyHeatmapper
  | Other "int \<Rightarrow> int \<Rightarrow> (rat \<times> rat) list \<Rightarrow> error + pil_image"

definition grey_heatmap ::
  "env \<Rightarrow> GreyHeatMapper \<Rightarrow> int \<Rightarrow> int \<Rightarrow> (rat \<times> rat) list \<Rightarrow> GreyHeatMapper \<times> (error + pil_image)" where
  "grey_heatmap e gh w h points =
     (case gh of
        PySide obj \<Rightarrow> (case PySide_heatmap e obj w h points of (obj1, r) \<Rightarrow> (PySide obj1, r))
      | Other f \<Rightarrow> (Other f, f w h points))"

section \<open>The heat mapper\<close>

text \<open>The attributes \<^verbatim>\<open>_opacity\<close>, \<^verbatim>\<open>cmap\<close> and \<^verbatim>\<open>grey_heatmapper\<close>.\<close>

record Heatmapper =
  hm_opacity :: rat
  hm_cmap :: colormap
  hm_grey_heatmapper :: GreyHeatMapper

text \<open>
  The \<open>colours\<close> argument is a colour map instance or anything else (a string); the
  \<open>grey_heatmapper\<close> argument is the string \<^verbatim>\<open>'PySide'\<close> or an object.
\<close>

datatype colours_arg = CmapInstance colormap | Str string

datatype grey_arg = PySideStr | GreyObj "int \<Rightarrow> int \<Rightarrow> (rat \<times> rat) list \<Rightarrow> error + pil_image"

definition path_join :: "string \<Rightarrow> string \<Rightarrow> string" where
  "path_join a b = (if a = [] then b else if last a = CHR ''/'' then a @ b else a @ ''/'' @ b)"

definition local_file :: "env \<Rightarrow> string \<Rightarrow> string" where
  "local_file e file = path_join (module_dir e) file"

definition files :: "env \<Rightarrow> string \<rightharpoonup> string" where
  "files e = [''default'' \<mapsto> local_file e ''default.png'', ''reveal'' \<mapsto> local_file e ''reveal.png'']"

text \<open>\<^verbatim>\<open>files.get(colours) or colours\<close>\<close>

definition scale_path :: "env \<Rightarrow> string \<Rightarrow> string" where
  "scale_path e colours =
     (case files e colours of None \<Rightarrow> colours | Some p \<Rightarrow> if p \<noteq> [] then p else colours)"

text \<open>
  \<^verbatim>\<open>Heatmapper.__init__(point_diameter, alpha_strength, opacity, colours, grey_heatmapper)\<close>.
  No argument is checked against a range.
\<close>

definition Heatmapper_init ::
  "env \<Rightarrow> rat \<Rightarrow> rat \<Rightarrow> rat \<Rightarrow> colours_arg \<Rightarrow> grey_arg \<Rightarrow> error + Heatmapper" where
  "Heatmapper_init e point_diameter alpha_strength opacity colours grey =
     (case (case colours of CmapInstance cm \<Rightarrow> Inr cm
            | Str s \<Rightarrow> cmap_from_image_path e (scale_path e s)) of
        Inl err \<Rightarrow> Inl err
      | Inr cm \<Rightarrow>
          Inr \<lparr>hm_opacity = opacity, hm_cmap = cm,
               hm_grey_heatmapper =
                 (case grey of
                    PySideStr \<Rightarrow> PySide (PySideGreyHeatmapper_init point_diameter alpha_strength)
                  | GreyObj f \<Rightarrow> Other f)\<rparr>)"

text \<open>
  \<^verbatim>\<open>_colourise\<close>: the grey image as an array of bytes, each mapped through the colour
  map. An image with more than one band gives an array that \<^verbatim>\<open>Image.fromarray\<close> refuses.
\<close>

definition colourise :: "Heatmapper \<Rightarrow> pil_image \<Rightarrow> Heatmapper \<times> (error + rgba img)" where
  "colourise self img =
     (self, case img of
              ImageL g \<Rightarrow>
                Inr \<lparr>width = width g, height = height g,
                     pix = (\<lambda>x y. cmap_index (hm_cmap self) (pix g x y))\<rparr>
            | _ \<Rightarrow> Inl TypeError)"

text \<open>
  \<^verbatim>\<open>Image.open(base_path) if base_path else base_img\<close>, then the composition.
\<close>

definition pick_background :: "env \<Rightarrow> string option \<Rightarrow> pil_image option \<Rightarrow> error + pil_image" where
  "pick_background e base_path base_img =
     (case base_path of
        Some p \<Rightarrow>
          if p \<noteq> [] then Image_open e p
          else (case base_img of Some im \<Rightarrow> Inr im | None \<Rightarrow> Inl AttributeError)
      | None \<Rightarrow> (case base_img of Some im \<Rightarrow> Inr im | None \<Rightarrow> Inl AttributeError))"

text \<open>
  \<^verbatim>\<open>Heatmapper.heatmap(width, height, points, base_path=None, base_img=None)\<close>:
  \<^verbatim>\<open>
    heatmap = self.grey_heatmapper.heatmap(width, height, points)
    heatmap = self._colourise(heatmap)
    heatmap = self._to_opacity(heatmap, self._opacity)
    if not (base_path or base_img):
        return heatmap
    background = Image.open(base_path) if base_path else base_img
    return Image.alpha_composite(background.convert('RGBA'), heatmap)
  \<close>
  The result is the object after the call together with the image or the exception.
\<close>

definition heatmap ::
  "env \<Rightarrow> Heatmapper \<Rightarrow> int \<Rightarrow> int \<Rightarrow> (rat \<times> rat) list \<Rightarrow> string option \<Rightarrow> pil_image option
     \<Rightarrow> Heatmapper \<times> (error + rgba img)" where
  "heatmap e self w h points base_path base_img =
     (case grey_heatmap e (hm_grey_heatmapper self) w h points of (gh1, r1) \<Rightarrow>
       (let self1 = self\<lparr>hm_grey_heatmapper := gh1\<rparr>
        in case r1 of Inl err \<Rightarrow> (self1, Inl err)
           | Inr grey \<Rightarrow>
              (case colourise self1 grey of (self2, r2) \<Rightarrow>
                (case r2 of Inl err \<Rightarrow> (self2, Inl err)
                 | Inr coloured \<Rightarrow>
                    (let hm = to_opacity_img coloured (hm_opacity self2)
                     in if \<not> (truthy base_path \<or> base_img \<noteq> None) then (self2, Inr hm)
                        else (case pick_background e base_path base_img of
                                Inl err \<Rightarrow> (self2, Inl err)
                              | Inr bg \<Rightarrow> (self2, alpha_composite e (convert_RGBA bg) hm)))))))"

section \<open>Reading pixels, and sample data\<close>


definition alpha_of :: "rgba \<Rightarrow> nat" where
  "alpha_of c = (case c of (r, g, b, a) \<Rightarrow> a)"


definition norm_px :: "rgba \<Rightarrow> colour" where
  "norm_px c = (case c of (r, g, b, a) \<Rightarrow>
      (rat_of_nat r / 255, rat_of_nat g / 255, rat_of_nat b / 255, rat_of_nat a / 255))"


text \<open>
  A small world for concrete runs: one colour scale of 256 columns whose last column
  is transparent, one photo of 4 by 3 pixels, a brush that covers only the pixel under
  the point with the centre alpha, and a composition that lets a visible overlay
  pixel replace the background.
\<close>

definition demo_scale :: pil_image where
  "demo_scale = ImageRGBA \<lparr>width = 256, height = 1, pix = (\<lambda>x y. (x, 255 - x, 0, 255 - x))\<rparr>"

definition demo_photo :: pil_image where
  "demo_photo = ImageRGB \<lparr>width = 4, height = 3, pix = (\<lambda>x y. (1, 2, 3))\<rparr>"

definition demo_env :: env where
  "demo_env =
     \<lparr>fs = (\<lambda>p. if p = ''scale.png'' then Some demo_scale
                else if p = ''photo.png'' then Some demo_photo else None),
      module_dir = ''/pkg'',
      resample = (\<lambda>im w h. im),
      over_px = (\<lambda>bg fg. if alpha_of fg = 0 then bg else fg),
      brush_alpha = (\<lambda>d a pt x y. if pt = (rat_of_nat x, rat_of_nat y) then nat a else 0)\<rparr>"

definition demo_cmap :: colormap where
  "demo_cmap =
     \<lparr>cm_N = 256, cm_lut = (\<lambda>i. (1, 0, 0, (255 - rat_of_nat i) / 255)),
      cm_under = (1, 0, 0, 1), cm_over = (1, 0, 0, 0)\<rparr>"

definition demo_heatmapper :: Heatmapper where
  "demo_heatmapper =
     \<lparr>hm_opacity = 13 / 20, hm_cmap = demo_cmap,
      hm_grey_heatmapper = PySide \<lparr>dm = 50, point_strength = 51\<rparr>\<rparr>"

section \<open>The opacity stage\<close>


lemma to_opacity_img_size:
  "width (to_opacity_img im opacity) = width im \<and> height (to_opacity_img im opacity) = height im"
  by (simp add: to_opacity_img_def set_alpha_def)


lemma to_opacity_img_alpha:
  "alpha_of (pix (to_opacity_img im opacity) x y) =
     CLIP8 (py_int (rat_of_nat (alpha_of (pix im x y)) * opacity))"
  by (simp add: to_opacity_img_def set_alpha_def alpha_of_def point_L_def alpha_band_def
      split: prod.splits)











section \<open>The rasteriser\<close>

lemma byte_mul_le: "a \<le> 255 \<Longrightarrow> byte_mul x a \<le> x"
proof -
  assume "a \<le> 255"
  then have "x * a \<le> x * 255" by (rule mult_le_mono2)
  then show ?thesis unfolding byte_mul_def Let_def by arith
qed

lemma byte_mul_255: "a \<le> 255 \<Longrightarrow> byte_mul 255 a = a"
  unfolding byte_mul_def Let_def by arith

lemma luma_mono: "r \<le> r1 \<Longrightarrow> g \<le> g1 \<Longrightarrow> b \<le> b1 \<Longrightarrow> luma r g b \<le> luma r1 g1 b1"
  unfolding luma_def by (intro div_le_mono) arith

lemma luma_grey: "luma v v v = v"
  unfolding luma_def by arith


lemma source_over_darkens:
  assumes "sa \<le> 255"
  shows "(case source_over sa d of (r, g, b, a) \<Rightarrow> luma r g b)
           \<le> (case d of (r, g, b, a) \<Rightarrow> luma r g b)"
proof -
  obtain r g b a where d: "d = (r, g, b, a)" by (cases d) auto
  have "255 - sa \<le> 255" by simp
  then have "byte_mul r (255 - sa) \<le> r" "byte_mul g (255 - sa) \<le> g" "byte_mul b (255 - sa) \<le> b"
    by (rule byte_mul_le)+
  then show ?thesis by (simp add: d source_over_def luma_mono)
qed

lemma source_over_opaque:
  assumes "sa \<le> 255" and "alpha_of d = 255"
  shows "alpha_of (source_over sa d) = 255"
proof -
  obtain r g b a where d: "d = (r, g, b, a)" by (cases d) auto
  with assms(2) have a: "a = 255" by (simp add: alpha_of_def)
  have "byte_mul 255 (255 - sa) = 255 - sa" by (rule byte_mul_255) simp
  with assms(1) show ?thesis by (simp add: d a source_over_def alpha_of_def)
qed

lemma paint_point_eq:
  "paint_point e self point painter =
     (self, painter\<lparr>pix := (\<lambda>x y. source_over
        (min 255 (brush_alpha e (dm self) (max (point_strength self) 0) point x y))
        (pix painter x y))\<rparr>)"
  by (simp add: paint_point_def Let_def)

lemma paint_points_self: "fst (paint_points e self img points) = self"
  by (induction points arbitrary: img) (simp_all add: paint_point_eq)

lemma paint_points_size:
  "width (snd (paint_points e self img points)) = width img
   \<and> height (snd (paint_points e self img points)) = height img"
  by (induction points arbitrary: img) (simp_all add: paint_point_eq)

lemma paint_points_opaque:
  assumes "\<forall>x y. alpha_of (pix img x y) = 255"
  shows "alpha_of (pix (snd (paint_points e self img points)) x y) = 255"
  using assms
proof (induction points arbitrary: img)
  case Nil
  then show ?case by simp
next
  case (Cons p ps)
  have "\<forall>x y. alpha_of (pix (snd (paint_point e self p img)) x y) = 255"
    using Cons.prems by (simp add: paint_point_eq source_over_opaque)
  then have "alpha_of (pix (snd (paint_points e self (snd (paint_point e self p img)) ps)) x y) = 255"
    by (rule Cons.IH)
  then show ?case by (simp add: paint_point_eq)
qed

lemma PySide_heatmap_self: "fst (PySide_heatmap e self w h points) = self"
  by (simp add: PySide_heatmap_def Let_def case_prod_beta paint_points_self)

lemma PySide_heatmap_result:
  assumes "0 < w" and "0 < h"
  shows "snd (PySide_heatmap e self w h points) =
           Inr (ImageL (convert_L (ImageRGBA (snd (paint_points e self
                  \<lparr>width = nat w, height = nat h, pix = (\<lambda>x y. (255, 255, 255, 255))\<rparr> points)))))"
proof -
  let ?c = "\<lparr>width = nat w, height = nat h, pix = (\<lambda>x y. (255::nat, 255::nat, 255::nat, 255::nat))\<rparr>"
  have c: "QImage_fill (QImage_new w h) (255, 255, 255, 255) = ?c"
    using assms by (simp add: QImage_fill_def QImage_new_def)
  have "width (snd (paint_points e self ?c points)) = nat w"
    "height (snd (paint_points e self ?c points)) = nat h"
    using paint_points_size [of e self ?c points] by simp_all
  with assms have "qimage_to_pil_image (snd (paint_points e self ?c points))
      = Inr (ImageRGBA (snd (paint_points e self ?c points)))"
    by (simp add: qimage_to_pil_image_def)
  then show ?thesis
    by (simp add: PySide_heatmap_def c Let_def case_prod_beta)
qed

text \<open>
  Claim C7. For every location and every strength, rasterising the same point twice
  gives at every pixel, the pixel at the location included, a grey value that is
  equal to or darker (smaller) than the value after rasterising it once: painting
  only darkens.
\<close>

theorem second_point_never_lighter:
  assumes "0 < w" and "0 < h"
  shows "\<exists>g1 g2.
           snd (PySide_heatmap e (PySideGreyHeatmapper_init diameter strength) w h [p]) = Inr (ImageL g1)
         \<and> snd (PySide_heatmap e (PySideGreyHeatmapper_init diameter strength) w h [p, p]) = Inr (ImageL g2)
         \<and> (\<forall>x y. pix g2 x y \<le> pix g1 x y)"
proof -
  let ?self = "PySideGreyHeatmapper_init diameter strength"
  let ?c = "\<lparr>width = nat w, height = nat h, pix = (\<lambda>x y. (255::nat, 255::nat, 255::nat, 255::nat))\<rparr>"
  let ?g = "\<lambda>points. convert_L (ImageRGBA (snd (paint_points e ?self ?c points)))"
  have r1: "snd (PySide_heatmap e ?self w h [p]) = Inr (ImageL (?g [p]))"
    using assms by (rule PySide_heatmap_result)
  have r2: "snd (PySide_heatmap e ?self w h [p, p]) = Inr (ImageL (?g [p, p]))"
    using assms by (rule PySide_heatmap_result)
  have "\<forall>x y. pix (?g [p, p]) x y \<le> pix (?g [p]) x y"
    by (simp add: paint_point_eq source_over_darkens)
  with r1 r2 show ?thesis by blast
qed

theorem second_point_never_lighter_witness:
  "(0::int) < 3 \<and> (0::int) < 3
   \<and> (\<exists>g1 g2.
         snd (PySide_heatmap demo_env (PySideGreyHeatmapper_init 50 (1 / 5)) 3 3 [(1, 1)])
           = Inr (ImageL g1)
       \<and> snd (PySide_heatmap demo_env (PySideGreyHeatmapper_init 50 (1 / 5)) 3 3 [(1, 1), (1, 1)])
           = Inr (ImageL g2)
       \<and> pix g2 1 1 \<le> pix g1 1 1 \<and> pix g1 1 1 = 204 \<and> pix g2 1 1 = 163 \<and> pix g2 0 0 = 255)"
proof -
  have a: "(0::int) < 3" by simp
  let ?self = "PySideGreyHeatmapper_init 50 (1 / 5)"
  from second_point_never_lighter [OF a a, of demo_env 50 "1 / 5" "(1, 1)"]
  obtain g1 g2 where
    r1: "snd (PySide_heatmap demo_env ?self 3 3 [(1, 1)]) = Inr (ImageL g1)"
    and r2: "snd (PySide_heatmap demo_env ?self 3 3 [(1, 1), (1, 1)]) = Inr (ImageL g2)"
    and le: "\<forall>x y. pix g2 x y \<le> pix g1 x y"
    by blast
  have s: "point_strength ?self = 51" "dm ?self = 50"
    by (simp_all add: PySideGreyHeatmapper_init_def py_int_def)
  have v: "byte_mul 255 204 = 204" "byte_mul 204 204 = 163" "byte_mul 255 255 = 255" "luma 204 204 204 = 204"
    "luma 163 163 163 = 163" "luma 255 255 255 = 255"
    by (simp_all add: byte_mul_def luma_def)
  from r1 have "pix g1 1 1 = 204"
    unfolding PySide_heatmap_result [OF a a]
    by (auto simp add: paint_point_eq s v source_over_def demo_env_def)
  moreover from r2 have "pix g2 1 1 = 163" "pix g2 0 0 = 255"
    unfolding PySide_heatmap_result [OF a a]
    by (auto simp add: paint_point_eq s v source_over_def demo_env_def)
  ultimately show ?thesis using r1 r2 le a by auto
qed

section \<open>The pipeline\<close>

lemma grey_heatmap_self: "fst (grey_heatmap e gh w h points) = gh"
  by (cases gh) (simp_all add: grey_heatmap_def case_prod_beta PySide_heatmap_self)

lemma colourise_self: "fst (colourise self img) = self"
  by (simp add: colourise_def)

lemma heatmap_self: "fst (heatmap e self w h points base_path base_img) = self"
  by (simp add: heatmap_def Let_def case_prod_beta grey_heatmap_self colourise_self
      split: sum.splits)

lemma heatmap_result:
  "snd (heatmap e self w h points base_path base_img) =
     (case snd (grey_heatmap e (hm_grey_heatmapper self) w h points) of
        Inl err \<Rightarrow> Inl err
      | Inr grey \<Rightarrow>
          (case snd (colourise self grey) of
             Inl err \<Rightarrow> Inl err
           | Inr coloured \<Rightarrow>
               if \<not> (truthy base_path \<or> base_img \<noteq> None)
               then Inr (to_opacity_img coloured (hm_opacity self))
               else (case pick_background e base_path base_img of
                       Inl err \<Rightarrow> Inl err
                     | Inr bg \<Rightarrow>
                         alpha_composite e (convert_RGBA bg)
                           (to_opacity_img coloured (hm_opacity self)))))"
  by (simp add: heatmap_def Let_def case_prod_beta grey_heatmap_self colourise_self
      split: sum.splits)


lemma grey_heatmap_PySide:
  "snd (grey_heatmap e (PySide gh) w h points) = snd (PySide_heatmap e gh w h points)"
  by (simp add: grey_heatmap_def case_prod_beta)

lemma PySide_heatmap_no_points:
  assumes "0 < w" and "0 < h"
  shows "snd (PySide_heatmap e gh w h []) =
           Inr (ImageL \<lparr>width = nat w, height = nat h, pix = (\<lambda>x y. 255)\<rparr>)"
  by (simp add: PySide_heatmap_result [OF assms] luma_grey)

lemma to_byte_0: "to_byte 0 = 0"
  by (simp add: to_byte_def)

lemma alpha_of_cmap_index: "alpha_of (cmap_index cm i) = to_byte (colour_alpha (cmap_colour cm i))"
  by (simp add: cmap_index_def colour_bytes_def alpha_of_def colour_alpha_def split: prod.splits)

text \<open>
  Claim C3. With no points the greyscale field of size width by height is 255
  everywhere, and then, for every colour map whose colour for the value 255 (zero
  density) has alpha zero, the image that \<open>heatmap\<close> returns without a background has
  alpha 0 at every pixel.
\<close>

theorem no_points_transparent:
  assumes "0 < w" and "0 < h"
  shows "snd (PySide_heatmap e gh w h []) =
           Inr (ImageL \<lparr>width = nat w, height = nat h, pix = (\<lambda>x y. 255)\<rparr>)
       \<and> (hm_grey_heatmapper self = PySide gh
            \<and> colour_alpha (cmap_colour (hm_cmap self) 255) = 0 \<longrightarrow>
          (\<exists>im. snd (heatmap e self w h [] None None) = Inr im
              \<and> width im = nat w \<and> height im = nat h
              \<and> (\<forall>x y. alpha_of (pix im x y) = 0)))"
proof (intro conjI impI)
  show g: "snd (PySide_heatmap e gh w h []) =
           Inr (ImageL \<lparr>width = nat w, height = nat h, pix = (\<lambda>x y. 255)\<rparr>)"
    using assms by (rule PySide_heatmap_no_points)
  assume c: "hm_grey_heatmapper self = PySide gh
            \<and> colour_alpha (cmap_colour (hm_cmap self) 255) = 0"
  let ?col = "\<lparr>width = nat w, height = nat h, pix = (\<lambda>x y. cmap_index (hm_cmap self) 255)\<rparr>"
  let ?im = "to_opacity_img ?col (hm_opacity self)"
  have "snd (heatmap e self w h [] None None) = Inr ?im"
    using c g by (simp add: heatmap_result grey_heatmap_PySide colourise_def truthy_def)
  moreover have "width ?im = nat w" "height ?im = nat h"
    by (simp_all add: to_opacity_img_size)
  moreover have "\<forall>x y. alpha_of (pix ?im x y) = 0"
    using c by (simp add: to_opacity_img_alpha alpha_of_cmap_index to_byte_0 py_int_def CLIP8_def)
  ultimately show "\<exists>im. snd (heatmap e self w h [] None None) = Inr im
              \<and> width im = nat w \<and> height im = nat h
              \<and> (\<forall>x y. alpha_of (pix im x y) = 0)"
    by blast
qed

theorem no_points_transparent_witness:
  "(0::int) < 2 \<and> (0::int) < 3
   \<and> hm_grey_heatmapper demo_heatmapper = PySide \<lparr>dm = 50, point_strength = 51\<rparr>
   \<and> colour_alpha (cmap_colour (hm_cmap demo_heatmapper) 255) = 0
   \<and> snd (PySide_heatmap demo_env \<lparr>dm = 50, point_strength = 51\<rparr> 2 3 []) =
           Inr (ImageL \<lparr>width = 2, height = 3, pix = (\<lambda>x y. 255)\<rparr>)
   \<and> (\<exists>im. snd (heatmap demo_env demo_heatmapper 2 3 [] None None) = Inr im
          \<and> width im = 2 \<and> height im = 3 \<and> (\<forall>x y. alpha_of (pix im x y) = 0))"
proof -
  have a: "(0::int) < 2" "(0::int) < 3" by simp_all
  have b: "hm_grey_heatmapper demo_heatmapper = PySide \<lparr>dm = 50, point_strength = 51\<rparr>"
    by (simp add: demo_heatmapper_def)
  have c: "colour_alpha (cmap_colour (hm_cmap demo_heatmapper) 255) = 0"
    by (simp add: demo_heatmapper_def demo_cmap_def cmap_colour_def colour_alpha_def)
  from no_points_transparent [OF a, of demo_env "\<lparr>dm = 50, point_strength = 51\<rparr>" demo_heatmapper]
    a b c show ?thesis by simp
qed

text \<open>
  Claim C8. A call of \<open>heatmap\<close> leaves the object as it was: colour map, opacity and
  rasteriser with its diameter and strength are the ones set by the constructor, and
  a later call computes what it would have computed without the earlier one.
\<close>

theorem heatmap_keeps_configuration:
  "fst (heatmap e self w h points base_path base_img) = self
   \<and> heatmap e (fst (heatmap e self w h points base_path base_img)) w2 h2 points2 base_path2 base_img2
       = heatmap e self w2 h2 points2 base_path2 base_img2"
  by (simp add: heatmap_self)

lemma convert_RGBA_size: "(width (convert_RGBA bg), height (convert_RGBA bg)) = img_size bg"
  by (cases bg) simp_all

text \<open>
  Claim C2. When a background is supplied (by a non-empty path that opens, or else as
  an image) and its size differs from the requested width and height, \<open>heatmap\<close>
  fails with Pillow's \<^verbatim>\<open>ValueError: images do not match\<close>, the dimension mismatch
  error; nothing is resized. The rasteriser is the default one on a positive canvas,
  or any other that returns a grey image of the requested size.
\<close>

theorem mismatched_background_fails:
  assumes "(hm_grey_heatmapper self = PySide gh \<and> 0 < w \<and> 0 < h)
         \<or> (hm_grey_heatmapper self = Other f
             \<and> (\<exists>g. f w h points = Inr (ImageL g) \<and> width g = nat w \<and> height g = nat h))"
    and "(\<exists>p. base_path = Some p \<and> p \<noteq> [] \<and> fs e p = Some bg)
         \<or> (\<not> truthy base_path \<and> base_img = Some bg)"
    and "img_size bg \<noteq> (nat w, nat h)"
  shows "snd (heatmap e self w h points base_path base_img) = Inl (ValueError ''images do not match'')"
proof -
  obtain g where g: "snd (grey_heatmap e (hm_grey_heatmapper self) w h points) = Inr (ImageL g)"
    and gs: "width g = nat w" "height g = nat h"
  proof -
    from assms(1) show ?thesis
    proof
      assume p: "hm_grey_heatmapper self = PySide gh \<and> 0 < w \<and> 0 < h"
      let ?g0 = "convert_L (ImageRGBA (snd (paint_points e gh
             \<lparr>width = nat w, height = nat h, pix = (\<lambda>x y. (255, 255, 255, 255))\<rparr> points)))"
      from p have r: "snd (PySide_heatmap e gh w h points) = Inr (ImageL ?g0)"
        by (simp add: PySide_heatmap_result)
      show ?thesis
        by (rule that [of ?g0]) (use p r in \<open>simp_all add: grey_heatmap_PySide paint_points_size\<close>)
    next
      assume "hm_grey_heatmapper self = Other f
             \<and> (\<exists>g. f w h points = Inr (ImageL g) \<and> width g = nat w \<and> height g = nat h)"
      then obtain g0 where "hm_grey_heatmapper self = Other f" "f w h points = Inr (ImageL g0)"
        "width g0 = nat w" "height g0 = nat h" by blast
      then show ?thesis by (intro that [of g0]) (simp_all add: grey_heatmap_def)
    qed
  qed
  have bg: "pick_background e base_path base_img = Inr bg" and given: "truthy base_path \<or> base_img \<noteq> None"
    using assms(2) by (auto simp add: pick_background_def Image_open_def truthy_def split: option.splits)
  let ?hm = "to_opacity_img \<lparr>width = width g, height = height g,
                     pix = (\<lambda>x y. cmap_index (hm_cmap self) (pix g x y))\<rparr> (hm_opacity self)"
  have "(width ?hm, height ?hm) = (nat w, nat h)" by (simp add: to_opacity_img_size gs)
  with assms(3) convert_RGBA_size [of bg]
  have "alpha_composite e (convert_RGBA bg) ?hm = Inl (ValueError ''images do not match'')"
    by (auto simp add: alpha_composite_def)
  then show ?thesis
    using g bg given by (simp add: heatmap_result colourise_def)
qed

theorem mismatched_background_fails_witness:
  "hm_grey_heatmapper demo_heatmapper = PySide \<lparr>dm = 50, point_strength = 51\<rparr>
   \<and> (0::int) < 3 \<and> ''photo.png'' \<noteq> [] \<and> fs demo_env ''photo.png'' = Some demo_photo
   \<and> img_size demo_photo \<noteq> (nat 3, nat 3)
   \<and> snd (heatmap demo_env demo_heatmapper 3 3 [(1, 1)] (Some ''photo.png'') None)
        = Inl (ValueError ''images do not match'')"
proof -
  have a: "(hm_grey_heatmapper demo_heatmapper = PySide \<lparr>dm = 50, point_strength = 51\<rparr>
            \<and> (0::int) < 3 \<and> (0::int) < 3)
         \<or> (hm_grey_heatmapper demo_heatmapper = Other (\<lambda>w h ps. Inl TypeError)
             \<and> (\<exists>g. (\<lambda>w h ps. Inl TypeError) (3::int) (3::int) [(1::rat, 1::rat)] = Inr (ImageL g)
                   \<and> width g = nat 3 \<and> height g = nat 3))"
    by (simp add: demo_heatmapper_def)
  have b: "(\<exists>p. Some ''photo.png'' = Some p \<and> p \<noteq> [] \<and> fs demo_env p = Some demo_photo)
         \<or> (\<not> truthy (Some ''photo.png'') \<and> None = Some demo_photo)"
    by (simp add: demo_env_def)
  have c: "img_size demo_photo \<noteq> (nat 3, nat 3)"
    by (simp add: demo_photo_def)
  from mismatched_background_fails [OF a b c] a b c show ?thesis
    by (simp add: demo_heatmapper_def demo_env_def)
qed




section \<open>Colour maps from images\<close>


lemma resize_same: "img_size im = sz \<Longrightarrow> resize e im sz = im"
  by (simp add: resize_def)


lemma sample_colours_RGBA:
  assumes "\<forall>x \<in> set xs. x < width im" and "0 < height im"
  shows "sample_colours (ImageRGBA im) xs = Inr (map (\<lambda>x. norm_px (pix im x 0)) xs)"
  using assms(1)
proof (induction xs)
  case Nil
  then show ?case by simp
next
  case (Cons x xs)
  then have "x < width im" by simp
  with assms(2) have "getpixel (ImageRGBA im) (x, 0) = Inr (pixel_at (ImageRGBA im) x 0)"
    by (simp add: getpixel_def)
  moreover have "unpack4 (pixel_at (ImageRGBA im) x 0) = Inr (norm_px (pix im x 0))"
    by (simp add: unpack4_def norm_px_def split: prod.splits)
  ultimately show ?case using Cons by simp
qed







lemma cmap_from_image_RGBA_256:
  assumes "width im = 256" and "0 < height im"
  shows "cmap_from_image e (ImageRGBA im) =
           Inr (from_list (map (\<lambda>x. norm_px (pix im x 0)) [0..<256]))"
proof -
  have "resize e (ImageRGBA im) (256, snd (img_size (ImageRGBA im))) = ImageRGBA im"
    using assms(1) by (intro resize_same) simp
  moreover have "sample_colours (ImageRGBA im) [0..<256]
      = Inr (map (\<lambda>x. norm_px (pix im x 0)) [0..<256])"
    using assms by (intro sample_colours_RGBA) simp_all
  ultimately show ?thesis by (simp add: cmap_from_image_def)
qed



section \<open>Construction\<close>

lemma scale_path_other:
  assumes "s \<noteq> ''default''" and "s \<noteq> ''reveal''"
  shows "scale_path e s = s"
  using assms by (simp add: scale_path_def files_def)

lemma Heatmapper_init_Str:
  "Heatmapper_init e d a opacity (Str s) g =
     (case cmap_from_image_path e (scale_path e s) of
        Inl err \<Rightarrow> Inl err
      | Inr cm \<Rightarrow>
          Inr \<lparr>hm_opacity = opacity, hm_cmap = cm,
               hm_grey_heatmapper =
                 (case g of PySideStr \<Rightarrow> PySide (PySideGreyHeatmapper_init d a)
                  | GreyObj f \<Rightarrow> Other f)\<rparr>)"
  by (simp add: Heatmapper_init_def)

text \<open>
  Claim C9. A \<open>colours\<close> string other than \<open>default\<close> and \<open>reveal\<close> is used as the path
  of the reference image, which the constructor opens: when no readable file is at
  that path, construction fails with the error of \<^verbatim>\<open>Image.open\<close> (an OSError, the
  file access error), and there is no other error for an unknown preset name; when
  a file is there, construction succeeds or fails as building the colour map from
  that image does.
\<close>

theorem unknown_name_is_opened_as_path:
  assumes "s \<noteq> ''default''" and "s \<noteq> ''reveal''"
  shows "(fs e s = None \<longrightarrow> Heatmapper_init e d a opacity (Str s) g = Inl OSError)
       \<and> (\<forall>img. fs e s = Some img \<longrightarrow>
            (case Heatmapper_init e d a opacity (Str s) g of
               Inl err \<Rightarrow> cmap_from_image e img = Inl err
             | Inr hm \<Rightarrow> cmap_from_image e img = Inr (hm_cmap hm)))"
  by (auto simp add: Heatmapper_init_Str scale_path_other [OF assms] cmap_from_image_path_def
      Image_open_def split: sum.splits)

theorem unknown_name_is_opened_as_path_witness:
  "''defualt'' \<noteq> ''default'' \<and> ''defualt'' \<noteq> ''reveal'' \<and> fs demo_env ''defualt'' = None
   \<and> Heatmapper_init demo_env 50 (1 / 5) (13 / 20) (Str ''defualt'') PySideStr = Inl OSError
   \<and> ''scale.png'' \<noteq> ''default'' \<and> ''scale.png'' \<noteq> ''reveal''
   \<and> fs demo_env ''scale.png'' = Some demo_scale
   \<and> (\<exists>hm. Heatmapper_init demo_env 50 (1 / 5) (13 / 20) (Str ''scale.png'') PySideStr = Inr hm
          \<and> cmap_from_image demo_env demo_scale = Inr (hm_cmap hm))"
proof -
  have a: "''defualt'' \<noteq> ''default''" "''defualt'' \<noteq> ''reveal''" by simp_all
  have b: "fs demo_env ''defualt'' = None" by (simp add: demo_env_def)
  from unknown_name_is_opened_as_path [OF a, of demo_env 50 "1 / 5" "13 / 20" PySideStr] b
  have missing: "Heatmapper_init demo_env 50 (1 / 5) (13 / 20) (Str ''defualt'') PySideStr = Inl OSError"
    by simp
  have c: "''scale.png'' \<noteq> ''default''" "''scale.png'' \<noteq> ''reveal''" by simp_all
  have d: "fs demo_env ''scale.png'' = Some demo_scale" by (simp add: demo_env_def)
  have "\<exists>cm. cmap_from_image demo_env demo_scale = Inr cm"
    by (simp add: demo_scale_def cmap_from_image_RGBA_256)
  then obtain cm where cm: "cmap_from_image demo_env demo_scale = Inr cm" ..
  from unknown_name_is_opened_as_path [OF c, of demo_env 50 "1 / 5" "13 / 20" PySideStr] d
  have "case Heatmapper_init demo_env 50 (1 / 5) (13 / 20) (Str ''scale.png'') PySideStr of
          Inl err \<Rightarrow> cmap_from_image demo_env demo_scale = Inl err
        | Inr hm \<Rightarrow> cmap_from_image demo_env demo_scale = Inr (hm_cmap hm)"
    by blast
  with cm have "\<exists>hm. Heatmapper_init demo_env 50 (1 / 5) (13 / 20) (Str ''scale.png'') PySideStr = Inr hm
          \<and> cmap_from_image demo_env demo_scale = Inr (hm_cmap hm)"
    by (cases "Heatmapper_init demo_env 50 (1 / 5) (13 / 20) (Str ''scale.png'') PySideStr") simp_all
  with a b missing c d show ?thesis by blast
qed




end
